theory Spec2Isabelle
  imports Main "HOL-Library.Word"
begin

section \<open>Time, durations and text\<close>

text \<open>
  The connection-resilience subsystem of block-checker (package \<^verbatim>\<open>database\<close>): the log
  aggregator \<^verbatim>\<open>DatabaseLogger\<close>, the failure classifier \<^verbatim>\<open>ErrorAnalyzer\<close> and the
  \<^verbatim>\<open>Reconnector\<close> with its background retry loop.

  Conventions of the embedding.
  \<^item> A Go \<^verbatim>\<open>string\<close> is its byte sequence: text outside ASCII is written as the
    bytes of its UTF-8 encoding.
  \<^item> A \<^verbatim>\<open>time.Time\<close> is an instant in nanoseconds (an unbounded integer); a
    \<^verbatim>\<open>time.Duration\<close> is a signed 64-bit count of nanoseconds, so that negation and
    multiplication wrap around as they do in Go.
  \<^item> Every operation reads the clock once: the value \<open>now\<close> it is given stands for each
    \<^verbatim>\<open>time.Now()\<close> of that operation.
  \<^item> Go's \<^verbatim>\<open>int\<close> counters (repeat counts, retry counts) are integers; none of them can
    reach \<open>2^63\<close> in a run.
  \<^item> A run-time panic is the result \<open>None\<close>.
  \<^item> The mirror of each log entry on the standard logger (\<^verbatim>\<open>outputToStdLog\<close>) writes to
    the process's error stream only and is not part of the state.
\<close>

type_synonym time = int
type_synonym duration = "64 word"

definition Second :: duration where
  "Second = 1000000000"

text \<open>\<^verbatim>\<open>t.Add(d)\<close> and \<^verbatim>\<open>t.Before(u)\<close> of package time.\<close>

definition Add :: "time \<Rightarrow> duration \<Rightarrow> time" where
  "Add t d = t + sint d"

definition Before :: "time \<Rightarrow> time \<Rightarrow> bool" where
  "Before t u = (t < u)"

text \<open>The verb \<^verbatim>\<open>%d\<close> of \<^verbatim>\<open>fmt.Sprintf\<close> on an \<^verbatim>\<open>int\<close>.\<close>

fun digits :: "nat \<Rightarrow> string" where
  "digits n =
     (if n < 10 then [''0123456789'' ! n]
      else digits (n div 10) @ [''0123456789'' ! (n mod 10)])"

declare digits.simps [simp del]

definition fmt_d :: "int \<Rightarrow> string" where
  "fmt_d i = (if i < 0 then CHR ''-'' # digits (nat (- i)) else digits (nat i))"

text \<open>
  The renderings of the standard library that reach stored text: the two layouts of
  \<^verbatim>\<open>Time.Format\<close> the code uses, the verb \<^verbatim>\<open>%v\<close> on a duration, and \<^verbatim>\<open>%v\<close> on
  \<^verbatim>\<open>now.Sub(start).Round(time.Second)\<close>. They are parameters of the model.
\<close>

record stdfmt =
  fmtDateTime :: "time \<Rightarrow> string"
  fmtHour :: "time \<Rightarrow> string"
  fmtDuration :: "duration \<Rightarrow> string"
  fmtElapsed :: "time \<Rightarrow> time \<Rightarrow> string"

text \<open>\<^verbatim>\<open>strings.HasPrefix\<close> and \<^verbatim>\<open>strings.Contains\<close>.\<close>

fun HasPrefix :: "string \<Rightarrow> string \<Rightarrow> bool" where
  "HasPrefix s [] = True"
| "HasPrefix [] (c # cs) = False"
| "HasPrefix (x # xs) (c # cs) = (x = c \<and> HasPrefix xs cs)"

fun Contains :: "string \<Rightarrow> string \<Rightarrow> bool" where
  "Contains [] sub = (sub = [])"
| "Contains (x # xs) sub = (HasPrefix (x # xs) sub \<or> Contains xs sub)"

text \<open>
  \<^verbatim>\<open>strings.ToLower\<close> as it acts on bytes: the letters A to Z become a to z and every other
  byte is kept. (Go also lowers cased letters outside ASCII; no keyword of the pattern
  table has one.)
\<close>

definition lowerByte :: "char \<Rightarrow> char" where
  "lowerByte c =
     (case map_of (zip ''ABCDEFGHIJKLMNOPQRSTUVWXYZ'' ''abcdefghijklmnopqrstuvwxyz'') c of
        Some l \<Rightarrow> l
      | None \<Rightarrow> c)"

definition ToLower :: "string \<Rightarrow> string" where
  "ToLower s = map lowerByte s"

section \<open>Text constants\<close>

text \<open>
  The string literals of the source that are not plain ASCII, as UTF-8 bytes. The names
  say where each is used: \<open>kw\<close> a keyword of the pattern table, \<open>cause\<close> and \<open>sugg\<close> the
  cause and suggestion of the pattern with that code, \<open>hint\<close> a retry-aware addition to a
  suggestion, \<open>msg\<close>, \<open>det\<close>, \<open>log\<close> and \<open>hist\<close> pieces of log messages, log details and
  error-history lines.
\<close>

definition msg_connLost :: string where
  "msg_connLost = [CHR 0xE2, CHR 0x9D, CHR 0x8C] @ '' '' @ [CHR 0xE6, CHR 0x95,
     CHR 0xB0, CHR 0xE6, CHR 0x8D, CHR 0xAE, CHR 0xE5, CHR 0xBA, CHR 0x93, CHR 0xE8,
     CHR 0xBF, CHR 0x9E, CHR 0xE6, CHR 0x8E, CHR 0xA5, CHR 0xE4, CHR 0xB8, CHR 0xA2,
     CHR 0xE5, CHR 0xA4, CHR 0xB1, CHR 0xEF, CHR 0xBC, CHR 0x8C, CHR 0xE5, CHR 0x90,
     CHR 0xAF, CHR 0xE5, CHR 0x8A, CHR 0xA8, CHR 0xE9, CHR 0x87, CHR 0x8D, CHR 0xE8,
     CHR 0xBF, CHR 0x9E, CHR 0xE7, CHR 0xA8, CHR 0x8B, CHR 0xE5, CHR 0xBA,
     CHR 0x8F] @ ''...''"

definition msg_startReconn :: string where
  "msg_startReconn = [CHR 0xF0, CHR 0x9F, CHR 0x94, CHR 0x84] @ '' '' @ [CHR 0xE5,
     CHR 0xBC, CHR 0x80, CHR 0xE5, CHR 0xA7, CHR 0x8B, CHR 0xE6, CHR 0x95, CHR 0xB0,
     CHR 0xE6, CHR 0x8D, CHR 0xAE, CHR 0xE5, CHR 0xBA, CHR 0x93, CHR 0xE9, CHR 0x87,
     CHR 0x8D, CHR 0xE8, CHR 0xBF, CHR 0x9E, CHR 0xE7, CHR 0xA8, CHR 0x8B, CHR 0xE5,
     CHR 0xBA, CHR 0x8F]"

definition msg_firstAttempt :: string where
  "msg_firstAttempt = [CHR 0xE5, CHR 0xBC, CHR 0x80, CHR 0xE5, CHR 0xA7, CHR 0x8B,
     CHR 0xE7, CHR 0xAC, CHR 0xAC, CHR 0xE4, CHR 0xB8, CHR 0x80, CHR 0xE6, CHR 0xAC,
     CHR 0xA1, CHR 0xE9, CHR 0x87, CHR 0x8D, CHR 0xE8, CHR 0xBF, CHR 0x9E, CHR 0xE5,
     CHR 0xB0, CHR 0x9D, CHR 0xE8, CHR 0xAF, CHR 0x95]"

definition msg_attempt_pre :: string where
  "msg_attempt_pre = [CHR 0xE7, CHR 0xAC, CHR 0xAC] @ '' ''"

definition msg_attempt_post :: string where
  "msg_attempt_post = '' '' @ [CHR 0xE6, CHR 0xAC, CHR 0xA1, CHR 0xE9, CHR 0x87,
     CHR 0x8D, CHR 0xE8, CHR 0xBF, CHR 0x9E, CHR 0xE5, CHR 0xB0, CHR 0x9D, CHR 0xE8,
     CHR 0xAF, CHR 0x95]"

definition msg_progress10_pre :: string where
  "msg_progress10_pre = [CHR 0xE9, CHR 0x87, CHR 0x8D, CHR 0xE8, CHR 0xBF, CHR 0x9E,
     CHR 0xE8, CHR 0xBF, CHR 0x9B, CHR 0xE8, CHR 0xA1, CHR 0x8C, CHR 0xE4, CHR 0xB8,
     CHR 0xAD] @ '' - '' @ [CHR 0xE7, CHR 0xAC, CHR 0xAC] @ '' ''"

definition msg_progress_post :: string where
  "msg_progress_post = '' '' @ [CHR 0xE6, CHR 0xAC, CHR 0xA1, CHR 0xE5, CHR 0xB0,
     CHR 0x9D, CHR 0xE8, CHR 0xAF, CHR 0x95]"

definition msg_progressT_pre :: string where
  "msg_progressT_pre = [CHR 0xE9, CHR 0x87, CHR 0x8D, CHR 0xE8, CHR 0xBF, CHR 0x9E,
     CHR 0xE8, CHR 0xBF, CHR 0x9B, CHR 0xE5, CHR 0xBA, CHR 0xA6, CHR 0xE6, CHR 0x9B,
     CHR 0xB4, CHR 0xE6, CHR 0x96, CHR 0xB0] @ '' - '' @ [CHR 0xE7, CHR 0xAC,
     CHR 0xAC] @ '' ''"

definition det_elapsed :: string where
  "det_elapsed = [CHR 0xE5, CHR 0xB7, CHR 0xB2, CHR 0xE8, CHR 0x80, CHR 0x97, CHR 0xE6,
     CHR 0x97, CHR 0xB6] @ '': ''"

definition det_nextDelay :: string where
  "det_nextDelay = '', '' @ [CHR 0xE4, CHR 0xB8, CHR 0x8B, CHR 0xE6, CHR 0xAC,
     CHR 0xA1, CHR 0xE5, CHR 0xB0, CHR 0x9D, CHR 0xE8, CHR 0xAF, CHR 0x95, CHR 0xE9,
     CHR 0x97, CHR 0xB4, CHR 0xE9, CHR 0x9A, CHR 0x94] @ '': ''"

definition det_lastError :: string where
  "det_lastError = '', '' @ [CHR 0xE6, CHR 0x9C, CHR 0x80, CHR 0xE5, CHR 0x90,
     CHR 0x8E, CHR 0xE9, CHR 0x94, CHR 0x99, CHR 0xE8, CHR 0xAF, CHR 0xAF] @ '': ''"

definition msg_success :: string where
  "msg_success = [CHR 0xE2, CHR 0x9C, CHR 0x85] @ '' '' @ [CHR 0xE6, CHR 0x95,
     CHR 0xB0, CHR 0xE6, CHR 0x8D, CHR 0xAE, CHR 0xE5, CHR 0xBA, CHR 0x93, CHR 0xE9,
     CHR 0x87, CHR 0x8D, CHR 0xE8, CHR 0xBF, CHR 0x9E, CHR 0xE6, CHR 0x88, CHR 0x90,
     CHR 0xE5, CHR 0x8A, CHR 0x9F]"

definition det_total_pre :: string where
  "det_total_pre = [CHR 0xE6, CHR 0x80, CHR 0xBB, CHR 0xE8, CHR 0xAE, CHR 0xA1,
     CHR 0xE9, CHR 0x87, CHR 0x8D, CHR 0xE8, CHR 0xAF, CHR 0x95] @ '': ''"

definition det_total_mid :: string where
  "det_total_mid = '' '' @ [CHR 0xE6, CHR 0xAC, CHR 0xA1] @ '', '' @ [CHR 0xE8,
     CHR 0x80, CHR 0x97, CHR 0xE6, CHR 0x97, CHR 0xB6] @ '': ''"

definition msg_closeNewFailed :: string where
  "msg_closeNewFailed = [CHR 0xE5, CHR 0x85, CHR 0xB3, CHR 0xE9, CHR 0x97, CHR 0xAD,
     CHR 0xE6, CHR 0x96, CHR 0xB0, CHR 0xE6, CHR 0x95, CHR 0xB0, CHR 0xE6, CHR 0x8D,
     CHR 0xAE, CHR 0xE5, CHR 0xBA, CHR 0x93, CHR 0xE8, CHR 0xBF, CHR 0x9E, CHR 0xE6,
     CHR 0x8E, CHR 0xA5, CHR 0xE5, CHR 0xA4, CHR 0xB1, CHR 0xE8, CHR 0xB4, CHR 0xA5]"

definition msg_closeOldFailed :: string where
  "msg_closeOldFailed = [CHR 0xE5, CHR 0x85, CHR 0xB3, CHR 0xE9, CHR 0x97, CHR 0xAD,
     CHR 0xE6, CHR 0x97, CHR 0xA7, CHR 0xE6, CHR 0x95, CHR 0xB0, CHR 0xE6, CHR 0x8D,
     CHR 0xAE, CHR 0xE5, CHR 0xBA, CHR 0x93, CHR 0xE8, CHR 0xBF, CHR 0x9E, CHR 0xE6,
     CHR 0x8E, CHR 0xA5, CHR 0xE5, CHR 0xA4, CHR 0xB1, CHR 0xE8, CHR 0xB4, CHR 0xA5]"

definition hist_openFailed :: string where
  "hist_openFailed = [CHR 0xE6, CHR 0x89, CHR 0x93, CHR 0xE5, CHR 0xBC, CHR 0x80,
     CHR 0xE6, CHR 0x95, CHR 0xB0, CHR 0xE6, CHR 0x8D, CHR 0xAE, CHR 0xE5, CHR 0xBA,
     CHR 0x93, CHR 0xE8, CHR 0xBF, CHR 0x9E, CHR 0xE6, CHR 0x8E, CHR 0xA5, CHR 0xE5,
     CHR 0xA4, CHR 0xB1, CHR 0xE8, CHR 0xB4, CHR 0xA5] @ '': ''"

definition hist_pingFailed :: string where
  "hist_pingFailed = [CHR 0xE6, CHR 0x95, CHR 0xB0, CHR 0xE6, CHR 0x8D, CHR 0xAE,
     CHR 0xE5, CHR 0xBA, CHR 0x93, CHR 0xE8, CHR 0xBF, CHR 0x9E, CHR 0xE6, CHR 0x8E,
     CHR 0xA5, CHR 0xE6, CHR 0xB5, CHR 0x8B, CHR 0xE8, CHR 0xAF, CHR 0x95, CHR 0xE5,
     CHR 0xA4, CHR 0xB1, CHR 0xE8, CHR 0xB4, CHR 0xA5] @ '': ''"

definition kw_refused_zh :: string where
  "kw_refused_zh = [CHR 0xE8, CHR 0xBF, CHR 0x9E, CHR 0xE6, CHR 0x8E, CHR 0xA5,
     CHR 0xE8, CHR 0xA2, CHR 0xAB, CHR 0xE6, CHR 0x8B, CHR 0x92, CHR 0xE7, CHR 0xBB,
     CHR 0x9D]"

definition cause_NET_001 :: string where
  "cause_NET_001 = [CHR 0xE6, CHR 0x95, CHR 0xB0, CHR 0xE6, CHR 0x8D, CHR 0xAE,
     CHR 0xE5, CHR 0xBA, CHR 0x93, CHR 0xE6, CHR 0x9C, CHR 0x8D, CHR 0xE5, CHR 0x8A,
     CHR 0xA1, CHR 0xE5, CHR 0x99, CHR 0xA8, CHR 0xE6, CHR 0x8B, CHR 0x92, CHR 0xE7,
     CHR 0xBB, CHR 0x9D, CHR 0xE8, CHR 0xBF, CHR 0x9E, CHR 0xE6, CHR 0x8E, CHR 0xA5]"

definition sugg_NET_001 :: string where
  "sugg_NET_001 = [CHR 0xE6, CHR 0xA3, CHR 0x80, CHR 0xE6, CHR 0x9F, CHR 0xA5,
     CHR 0xE6, CHR 0x95, CHR 0xB0, CHR 0xE6, CHR 0x8D, CHR 0xAE, CHR 0xE5, CHR 0xBA,
     CHR 0x93, CHR 0xE6, CHR 0x9C, CHR 0x8D, CHR 0xE5, CHR 0x8A, CHR 0xA1, CHR 0xE6,
     CHR 0x98, CHR 0xAF, CHR 0xE5, CHR 0x90, CHR 0xA6, CHR 0xE8, CHR 0xBF, CHR 0x90,
     CHR 0xE8, CHR 0xA1, CHR 0x8C, CHR 0xEF, CHR 0xBC, CHR 0x8C, CHR 0xE7, CHR 0xAB,
     CHR 0xAF, CHR 0xE5, CHR 0x8F, CHR 0xA3, CHR 0xE6, CHR 0x98, CHR 0xAF, CHR 0xE5,
     CHR 0x90, CHR 0xA6, CHR 0xE6, CHR 0xAD, CHR 0xA3, CHR 0xE7, CHR 0xA1, CHR 0xAE,
     CHR 0xEF, CHR 0xBC, CHR 0x8C, CHR 0xE9, CHR 0x98, CHR 0xB2, CHR 0xE7, CHR 0x81,
     CHR 0xAB, CHR 0xE5, CHR 0xA2, CHR 0x99, CHR 0xE8, CHR 0xAE, CHR 0xBE, CHR 0xE7,
     CHR 0xBD, CHR 0xAE]"

definition kw_noroute_zh :: string where
  "kw_noroute_zh = [CHR 0xE7, CHR 0xBD, CHR 0x91, CHR 0xE7, CHR 0xBB, CHR 0x9C,
     CHR 0xE4, CHR 0xB8, CHR 0x8D, CHR 0xE5, CHR 0x8F, CHR 0xAF, CHR 0xE8, CHR 0xBE,
     CHR 0xBE]"

definition cause_NET_002 :: string where
  "cause_NET_002 = [CHR 0xE7, CHR 0xBD, CHR 0x91, CHR 0xE7, CHR 0xBB, CHR 0x9C,
     CHR 0xE8, CHR 0xB7, CHR 0xAF, CHR 0xE7, CHR 0x94, CHR 0xB1, CHR 0xE9, CHR 0x97,
     CHR 0xAE, CHR 0xE9, CHR 0xA2, CHR 0x98]"

definition sugg_NET_002 :: string where
  "sugg_NET_002 = [CHR 0xE6, CHR 0xA3, CHR 0x80, CHR 0xE6, CHR 0x9F, CHR 0xA5,
     CHR 0xE7, CHR 0xBD, CHR 0x91, CHR 0xE7, CHR 0xBB, CHR 0x9C, CHR 0xE8, CHR 0xBF,
     CHR 0x9E, CHR 0xE6, CHR 0x8E, CHR 0xA5, CHR 0xEF, CHR 0xBC,
     CHR 0x8C] @ ''DNS'' @ [CHR 0xE8, CHR 0xA7, CHR 0xA3, CHR 0xE6, CHR 0x9E, CHR 0x90,
     CHR 0xEF, CHR 0xBC, CHR 0x8C, CHR 0xE6, CHR 0x9C, CHR 0x8D, CHR 0xE5, CHR 0x8A,
     CHR 0xA1, CHR 0xE5, CHR 0x99, CHR 0xA8] @ ''IP'' @ [CHR 0xE5, CHR 0x9C, CHR 0xB0,
     CHR 0xE5, CHR 0x9D, CHR 0x80]"

definition kw_timeout_zh :: string where
  "kw_timeout_zh = [CHR 0xE8, CHR 0xB6, CHR 0x85, CHR 0xE6, CHR 0x97, CHR 0xB6]"

definition cause_TIME_001 :: string where
  "cause_TIME_001 = [CHR 0xE8, CHR 0xBF, CHR 0x9E, CHR 0xE6, CHR 0x8E, CHR 0xA5,
     CHR 0xE6, CHR 0x88, CHR 0x96, CHR 0xE6, CHR 0x9F, CHR 0xA5, CHR 0xE8, CHR 0xAF,
     CHR 0xA2, CHR 0xE8, CHR 0xB6, CHR 0x85, CHR 0xE6, CHR 0x97, CHR 0xB6]"

definition sugg_TIME_001 :: string where
  "sugg_TIME_001 = [CHR 0xE6, CHR 0xA3, CHR 0x80, CHR 0xE6, CHR 0x9F, CHR 0xA5,
     CHR 0xE7, CHR 0xBD, CHR 0x91, CHR 0xE7, CHR 0xBB, CHR 0x9C, CHR 0xE5, CHR 0xBB,
     CHR 0xB6, CHR 0xE8, CHR 0xBF, CHR 0x9F, CHR 0xEF, CHR 0xBC, CHR 0x8C, CHR 0xE5,
     CHR 0xA2, CHR 0x9E, CHR 0xE5, CHR 0x8A, CHR 0xA0, CHR 0xE8, CHR 0xB6, CHR 0x85,
     CHR 0xE6, CHR 0x97, CHR 0xB6, CHR 0xE6, CHR 0x97, CHR 0xB6, CHR 0xE9, CHR 0x97,
     CHR 0xB4, CHR 0xEF, CHR 0xBC, CHR 0x8C, CHR 0xE4, CHR 0xBC, CHR 0x98, CHR 0xE5,
     CHR 0x8C, CHR 0x96, CHR 0xE6, CHR 0x9F, CHR 0xA5, CHR 0xE8, CHR 0xAF, CHR 0xA2,
     CHR 0xE6, CHR 0x80, CHR 0xA7, CHR 0xE8, CHR 0x83, CHR 0xBD]"

definition kw_auth_zh :: string where
  "kw_auth_zh = [CHR 0xE8, CHR 0xAE, CHR 0xA4, CHR 0xE8, CHR 0xAF, CHR 0x81, CHR 0xE5,
     CHR 0xA4, CHR 0xB1, CHR 0xE8, CHR 0xB4, CHR 0xA5]"

definition cause_AUTH_001 :: string where
  "cause_AUTH_001 = [CHR 0xE8, CHR 0xBA, CHR 0xAB, CHR 0xE4, CHR 0xBB, CHR 0xBD,
     CHR 0xE9, CHR 0xAA, CHR 0x8C, CHR 0xE8, CHR 0xAF, CHR 0x81, CHR 0xE5, CHR 0xA4,
     CHR 0xB1, CHR 0xE8, CHR 0xB4, CHR 0xA5]"

definition sugg_AUTH_001 :: string where
  "sugg_AUTH_001 = [CHR 0xE6, CHR 0xA3, CHR 0x80, CHR 0xE6, CHR 0x9F, CHR 0xA5,
     CHR 0xE7, CHR 0x94, CHR 0xA8, CHR 0xE6, CHR 0x88, CHR 0xB7, CHR 0xE5, CHR 0x90,
     CHR 0x8D, CHR 0xE5, CHR 0xAF, CHR 0x86, CHR 0xE7, CHR 0xA0, CHR 0x81, CHR 0xEF,
     CHR 0xBC, CHR 0x8C, CHR 0xE7, CHR 0x94, CHR 0xA8, CHR 0xE6, CHR 0x88, CHR 0xB7,
     CHR 0xE6, CHR 0x9D, CHR 0x83, CHR 0xE9, CHR 0x99, CHR 0x90, CHR 0xEF, CHR 0xBC,
     CHR 0x8C, CHR 0xE4, CHR 0xB8, CHR 0xBB, CHR 0xE6, CHR 0x9C, CHR 0xBA, CHR 0xE8,
     CHR 0xAE, CHR 0xBF, CHR 0xE9, CHR 0x97, CHR 0xAE, CHR 0xE6, CHR 0x9D, CHR 0x83,
     CHR 0xE9, CHR 0x99, CHR 0x90]"

definition kw_nodb_zh :: string where
  "kw_nodb_zh = [CHR 0xE6, CHR 0x95, CHR 0xB0, CHR 0xE6, CHR 0x8D, CHR 0xAE, CHR 0xE5,
     CHR 0xBA, CHR 0x93, CHR 0xE4, CHR 0xB8, CHR 0x8D, CHR 0xE5, CHR 0xAD, CHR 0x98,
     CHR 0xE5, CHR 0x9C, CHR 0xA8]"

definition cause_CFG_001 :: string where
  "cause_CFG_001 = [CHR 0xE6, CHR 0x8C, CHR 0x87, CHR 0xE5, CHR 0xAE, CHR 0x9A,
     CHR 0xE7, CHR 0x9A, CHR 0x84, CHR 0xE6, CHR 0x95, CHR 0xB0, CHR 0xE6, CHR 0x8D,
     CHR 0xAE, CHR 0xE5, CHR 0xBA, CHR 0x93, CHR 0xE4, CHR 0xB8, CHR 0x8D, CHR 0xE5,
     CHR 0xAD, CHR 0x98, CHR 0xE5, CHR 0x9C, CHR 0xA8]"

definition sugg_CFG_001 :: string where
  "sugg_CFG_001 = [CHR 0xE7, CHR 0xA1, CHR 0xAE, CHR 0xE8, CHR 0xAE, CHR 0xA4,
     CHR 0xE6, CHR 0x95, CHR 0xB0, CHR 0xE6, CHR 0x8D, CHR 0xAE, CHR 0xE5, CHR 0xBA,
     CHR 0x93, CHR 0xE5, CHR 0x90, CHR 0x8D, CHR 0xE7, CHR 0xA7, CHR 0xB0, CHR 0xE6,
     CHR 0xAD, CHR 0xA3, CHR 0xE7, CHR 0xA1, CHR 0xAE, CHR 0xEF, CHR 0xBC, CHR 0x8C,
     CHR 0xE6, CHR 0xA3, CHR 0x80, CHR 0xE6, CHR 0x9F, CHR 0xA5, CHR 0xE6, CHR 0x95,
     CHR 0xB0, CHR 0xE6, CHR 0x8D, CHR 0xAE, CHR 0xE5, CHR 0xBA, CHR 0x93, CHR 0xE6,
     CHR 0x98, CHR 0xAF, CHR 0xE5, CHR 0x90, CHR 0xA6, CHR 0xE5, CHR 0xB7, CHR 0xB2,
     CHR 0xE5, CHR 0x88, CHR 0x9B, CHR 0xE5, CHR 0xBB, CHR 0xBA]"

definition kw_toomany_zh :: string where
  "kw_toomany_zh = [CHR 0xE8, CHR 0xBF, CHR 0x9E, CHR 0xE6, CHR 0x8E, CHR 0xA5,
     CHR 0xE6, CHR 0x95, CHR 0xB0, CHR 0xE8, CHR 0xBF, CHR 0x87, CHR 0xE5, CHR 0xA4,
     CHR 0x9A]"

definition cause_NET_003 :: string where
  "cause_NET_003 = [CHR 0xE6, CHR 0x95, CHR 0xB0, CHR 0xE6, CHR 0x8D, CHR 0xAE,
     CHR 0xE5, CHR 0xBA, CHR 0x93, CHR 0xE8, CHR 0xBF, CHR 0x9E, CHR 0xE6, CHR 0x8E,
     CHR 0xA5, CHR 0xE6, CHR 0x95, CHR 0xB0, CHR 0xE8, CHR 0xB6, CHR 0x85, CHR 0xE8,
     CHR 0xBF, CHR 0x87, CHR 0xE9, CHR 0x99, CHR 0x90, CHR 0xE5, CHR 0x88, CHR 0xB6]"

definition sugg_NET_003 :: string where
  "sugg_NET_003 = [CHR 0xE4, CHR 0xBC, CHR 0x98, CHR 0xE5, CHR 0x8C, CHR 0x96,
     CHR 0xE8, CHR 0xBF, CHR 0x9E, CHR 0xE6, CHR 0x8E, CHR 0xA5, CHR 0xE6, CHR 0xB1,
     CHR 0xA0, CHR 0xE9, CHR 0x85, CHR 0x8D, CHR 0xE7, CHR 0xBD, CHR 0xAE, CHR 0xEF,
     CHR 0xBC, CHR 0x8C, CHR 0xE5, CHR 0xA2, CHR 0x9E, CHR 0xE5, CHR 0x8A, CHR 0xA0,
     CHR 0xE6, CHR 0x9C, CHR 0x80, CHR 0xE5, CHR 0xA4, CHR 0xA7, CHR 0xE8, CHR 0xBF,
     CHR 0x9E, CHR 0xE6, CHR 0x8E, CHR 0xA5, CHR 0xE6, CHR 0x95, CHR 0xB0, CHR 0xEF,
     CHR 0xBC, CHR 0x8C, CHR 0xE6, CHR 0xA3, CHR 0x80, CHR 0xE6, CHR 0x9F, CHR 0xA5,
     CHR 0xE8, CHR 0xBF, CHR 0x9E, CHR 0xE6, CHR 0x8E, CHR 0xA5, CHR 0xE6, CHR 0xB3,
     CHR 0x84, CHR 0xE9, CHR 0x9C, CHR 0xB2]"

definition kw_disk_zh :: string where
  "kw_disk_zh = [CHR 0xE7, CHR 0xA3, CHR 0x81, CHR 0xE7, CHR 0x9B, CHR 0x98, CHR 0xE7,
     CHR 0xA9, CHR 0xBA, CHR 0xE9, CHR 0x97, CHR 0xB4, CHR 0xE4, CHR 0xB8, CHR 0x8D,
     CHR 0xE8, CHR 0xB6, CHR 0xB3]"

definition cause_CFG_003 :: string where
  "cause_CFG_003 = [CHR 0xE7, CHR 0xA3, CHR 0x81, CHR 0xE7, CHR 0x9B, CHR 0x98,
     CHR 0xE7, CHR 0xA9, CHR 0xBA, CHR 0xE9, CHR 0x97, CHR 0xB4, CHR 0xE4, CHR 0xB8,
     CHR 0x8D, CHR 0xE8, CHR 0xB6, CHR 0xB3]"

definition sugg_CFG_003 :: string where
  "sugg_CFG_003 = [CHR 0xE6, CHR 0xB8, CHR 0x85, CHR 0xE7, CHR 0x90, CHR 0x86,
     CHR 0xE7, CHR 0xA3, CHR 0x81, CHR 0xE7, CHR 0x9B, CHR 0x98, CHR 0xE7, CHR 0xA9,
     CHR 0xBA, CHR 0xE9, CHR 0x97, CHR 0xB4, CHR 0xEF, CHR 0xBC, CHR 0x8C, CHR 0xE5,
     CHR 0xA2, CHR 0x9E, CHR 0xE5, CHR 0x8A, CHR 0xA0, CHR 0xE5, CHR 0xAD, CHR 0x98,
     CHR 0xE5, CHR 0x82, CHR 0xA8, CHR 0xE5, CHR 0xAE, CHR 0xB9, CHR 0xE9, CHR 0x87,
     CHR 0x8F, CHR 0xEF, CHR 0xBC, CHR 0x8C, CHR 0xE9, CHR 0x85, CHR 0x8D, CHR 0xE7,
     CHR 0xBD, CHR 0xAE, CHR 0xE6, CHR 0x97, CHR 0xA5, CHR 0xE5, CHR 0xBF, CHR 0x97,
     CHR 0xE8, CHR 0xBD, CHR 0xAE, CHR 0xE8, CHR 0xBD, CHR 0xAC]"

definition kw_lock_zh :: string where
  "kw_lock_zh = [CHR 0xE9, CHR 0x94, CHR 0x81, CHR 0xE7, CHR 0xAD, CHR 0x89, CHR 0xE5,
     CHR 0xBE, CHR 0x85, CHR 0xE8, CHR 0xB6, CHR 0x85, CHR 0xE6, CHR 0x97, CHR 0xB6]"

definition cause_SQL_002 :: string where
  "cause_SQL_002 = [CHR 0xE4, CHR 0xBA, CHR 0x8B, CHR 0xE5, CHR 0x8A, CHR 0xA1,
     CHR 0xE9, CHR 0x94, CHR 0x81, CHR 0xE7, CHR 0xAD, CHR 0x89, CHR 0xE5, CHR 0xBE,
     CHR 0x85, CHR 0xE8, CHR 0xB6, CHR 0x85, CHR 0xE6, CHR 0x97, CHR 0xB6]"

definition sugg_SQL_002 :: string where
  "sugg_SQL_002 = [CHR 0xE4, CHR 0xBC, CHR 0x98, CHR 0xE5, CHR 0x8C, CHR 0x96,
     CHR 0xE4, CHR 0xBA, CHR 0x8B, CHR 0xE5, CHR 0x8A, CHR 0xA1, CHR 0xE9, CHR 0x80,
     CHR 0xBB, CHR 0xE8, CHR 0xBE, CHR 0x91, CHR 0xEF, CHR 0xBC, CHR 0x8C, CHR 0xE5,
     CHR 0x87, CHR 0x8F, CHR 0xE5, CHR 0xB0, CHR 0x91, CHR 0xE9, CHR 0x94, CHR 0x81,
     CHR 0xE6, CHR 0x8C, CHR 0x81, CHR 0xE6, CHR 0x9C, CHR 0x89, CHR 0xE6, CHR 0x97,
     CHR 0xB6, CHR 0xE9, CHR 0x97, CHR 0xB4, CHR 0xEF, CHR 0xBC, CHR 0x8C, CHR 0xE6,
     CHR 0xA3, CHR 0x80, CHR 0xE6, CHR 0x9F, CHR 0xA5, CHR 0xE6, CHR 0xAD, CHR 0xBB,
     CHR 0xE9, CHR 0x94, CHR 0x81]"

definition cause_UNK_001 :: string where
  "cause_UNK_001 = [CHR 0xE6, CHR 0x9C, CHR 0xAA, CHR 0xE8, CHR 0xAF, CHR 0x86,
     CHR 0xE5, CHR 0x88, CHR 0xAB, CHR 0xE7, CHR 0x9A, CHR 0x84, CHR 0xE9, CHR 0x94,
     CHR 0x99, CHR 0xE8, CHR 0xAF, CHR 0xAF, CHR 0xE7, CHR 0xB1, CHR 0xBB, CHR 0xE5,
     CHR 0x9E, CHR 0x8B]"

definition sugg_UNK_001 :: string where
  "sugg_UNK_001 = [CHR 0xE8, CHR 0xAF, CHR 0xB7, CHR 0xE8, CHR 0x81, CHR 0x94,
     CHR 0xE7, CHR 0xB3, CHR 0xBB, CHR 0xE7, CHR 0xB3, CHR 0xBB, CHR 0xE7, CHR 0xBB,
     CHR 0x9F, CHR 0xE7, CHR 0xAE, CHR 0xA1, CHR 0xE7, CHR 0x90, CHR 0x86, CHR 0xE5,
     CHR 0x91, CHR 0x98, CHR 0xE5, CHR 0xB9, CHR 0xB6, CHR 0xE6, CHR 0x8F, CHR 0x90,
     CHR 0xE4, CHR 0xBE, CHR 0x9B, CHR 0xE5, CHR 0xAE, CHR 0x8C, CHR 0xE6, CHR 0x95,
     CHR 0xB4, CHR 0xE9, CHR 0x94, CHR 0x99, CHR 0xE8, CHR 0xAF, CHR 0xAF, CHR 0xE4,
     CHR 0xBF, CHR 0xA1, CHR 0xE6, CHR 0x81, CHR 0xAF]"

definition hint_net_pre :: string where
  "hint_net_pre = '' | '' @ [CHR 0xE5, CHR 0xB7, CHR 0xB2, CHR 0xE9, CHR 0x87,
     CHR 0x8D, CHR 0xE8, CHR 0xAF, CHR 0x95]"

definition hint_net_post :: string where
  "hint_net_post = [CHR 0xE6, CHR 0xAC, CHR 0xA1, CHR 0xEF, CHR 0xBC, CHR 0x8C,
     CHR 0xE5, CHR 0xBB, CHR 0xBA, CHR 0xE8, CHR 0xAE, CHR 0xAE, CHR 0xE6, CHR 0xA3,
     CHR 0x80, CHR 0xE6, CHR 0x9F, CHR 0xA5, CHR 0xE7, CHR 0xBD, CHR 0x91, CHR 0xE7,
     CHR 0xBB, CHR 0x9C, CHR 0xE7, CHR 0xA8, CHR 0xB3, CHR 0xE5, CHR 0xAE, CHR 0x9A,
     CHR 0xE6, CHR 0x80, CHR 0xA7]"

definition hint_time_pre :: string where
  "hint_time_pre = '' | '' @ [CHR 0xE8, CHR 0xBF, CHR 0x9E, CHR 0xE7, CHR 0xBB,
     CHR 0xAD]"

definition hint_time_post :: string where
  "hint_time_post = [CHR 0xE6, CHR 0xAC, CHR 0xA1, CHR 0xE8, CHR 0xB6, CHR 0x85,
     CHR 0xE6, CHR 0x97, CHR 0xB6, CHR 0xEF, CHR 0xBC, CHR 0x8C, CHR 0xE5, CHR 0xBB,
     CHR 0xBA, CHR 0xE8, CHR 0xAE, CHR 0xAE, CHR 0xE5, CHR 0xA2, CHR 0x9E, CHR 0xE5,
     CHR 0x8A, CHR 0xA0, CHR 0xE8, CHR 0xB6, CHR 0x85, CHR 0xE6, CHR 0x97, CHR 0xB6,
     CHR 0xE9, CHR 0x85, CHR 0x8D, CHR 0xE7, CHR 0xBD, CHR 0xAE]"

definition hint_auth :: string where
  "hint_auth = '' | '' @ [CHR 0xE8, CHR 0xAE, CHR 0xA4, CHR 0xE8, CHR 0xAF, CHR 0x81,
     CHR 0xE9, CHR 0x94, CHR 0x99, CHR 0xE8, CHR 0xAF, CHR 0xAF, CHR 0xE9, CHR 0x80,
     CHR 0x9A, CHR 0xE5, CHR 0xB8, CHR 0xB8, CHR 0xE4, CHR 0xB8, CHR 0x8D, CHR 0xE4,
     CHR 0xBC, CHR 0x9A, CHR 0xE9, CHR 0x80, CHR 0x9A, CHR 0xE8, CHR 0xBF, CHR 0x87,
     CHR 0xE9, CHR 0x87, CHR 0x8D, CHR 0xE8, CHR 0xAF, CHR 0x95, CHR 0xE8, CHR 0xA7,
     CHR 0xA3, CHR 0xE5, CHR 0x86, CHR 0xB3, CHR 0xEF, CHR 0xBC, CHR 0x8C, CHR 0xE8,
     CHR 0xAF, CHR 0xB7, CHR 0xE7, CHR 0xAB, CHR 0x8B, CHR 0xE5, CHR 0x8D, CHR 0xB3,
     CHR 0xE6, CHR 0xA3, CHR 0x80, CHR 0xE6, CHR 0x9F, CHR 0xA5, CHR 0xE9, CHR 0x85,
     CHR 0x8D, CHR 0xE7, CHR 0xBD, CHR 0xAE]"

definition log_analysis_pre :: string where
  "log_analysis_pre = [CHR 0xE9, CHR 0x94, CHR 0x99, CHR 0xE8, CHR 0xAF, CHR 0xAF,
     CHR 0xE5, CHR 0x88, CHR 0x86, CHR 0xE6, CHR 0x9E, CHR 0x90] @ '': [''"

definition log_cause_pre :: string where
  "log_cause_pre = [CHR 0xE5, CHR 0x8E, CHR 0x9F, CHR 0xE5, CHR 0x9B, CHR 0xA0] @ '': ''"

definition log_sugg_pre :: string where
  "log_sugg_pre = '' | '' @ [CHR 0xE5, CHR 0xBB, CHR 0xBA, CHR 0xE8, CHR 0xAE,
     CHR 0xAE] @ '': ''"

definition log_cleared_pre :: string where
  "log_cleared_pre = [CHR 0xE6, CHR 0xB8, CHR 0x85, CHR 0xE7, CHR 0x90, CHR 0x86,
     CHR 0xE4, CHR 0xBA, CHR 0x86] @ '' ''"

definition log_cleared_post :: string where
  "log_cleared_post = '' '' @ [CHR 0xE6, CHR 0x9D, CHR 0xA1, CHR 0xE6, CHR 0x97,
     CHR 0xA7, CHR 0xE9, CHR 0x94, CHR 0x99, CHR 0xE8, CHR 0xAF, CHR 0xAF, CHR 0xE8,
     CHR 0xAE, CHR 0xB0, CHR 0xE5, CHR 0xBD, CHR 0x95]"

definition log_resolved_pre :: string where
  "log_resolved_pre = [CHR 0xE9, CHR 0x94, CHR 0x99, CHR 0xE8, CHR 0xAF, CHR 0xAF,
     CHR 0xE5, CHR 0xB7, CHR 0xB2, CHR 0xE6, CHR 0xA0, CHR 0x87, CHR 0xE8, CHR 0xAE,
     CHR 0xB0, CHR 0xE4, CHR 0xB8, CHR 0xBA, CHR 0xE8, CHR 0xA7, CHR 0xA3, CHR 0xE5,
     CHR 0x86, CHR 0xB3] @ '': [''"

definition cause_CFG_002 :: string where
  "cause_CFG_002 = [CHR 0xE6, CHR 0x95, CHR 0xB0, CHR 0xE6, CHR 0x8D, CHR 0xAE,
     CHR 0xE5, CHR 0xBA, CHR 0x93, CHR 0xE8, CHR 0xBF, CHR 0x9E, CHR 0xE6, CHR 0x8E,
     CHR 0xA5, CHR 0xE6, CHR 0x9C, CHR 0xAA, CHR 0xE5, CHR 0x88, CHR 0x9D, CHR 0xE5,
     CHR 0xA7, CHR 0x8B, CHR 0xE5, CHR 0x8C, CHR 0x96]"

definition sugg_CFG_002 :: string where
  "sugg_CFG_002 = [CHR 0xE8, CHR 0xAF, CHR 0xB7, CHR 0xE6, CHR 0xA3, CHR 0x80,
     CHR 0xE6, CHR 0x9F, CHR 0xA5, CHR 0xE6, CHR 0x95, CHR 0xB0, CHR 0xE6, CHR 0x8D,
     CHR 0xAE, CHR 0xE5, CHR 0xBA, CHR 0x93, CHR 0xE9, CHR 0x85, CHR 0x8D, CHR 0xE7,
     CHR 0xBD, CHR 0xAE, CHR 0xE5, CHR 0x92, CHR 0x8C, CHR 0xE5, CHR 0x90, CHR 0xAF,
     CHR 0xE5, CHR 0x8A, CHR 0xA8, CHR 0xE8, CHR 0xBF, CHR 0x87, CHR 0xE7, CHR 0xA8,
     CHR 0x8B]"

definition msg_reconnecting :: string where
  "msg_reconnecting = [CHR 0xE6, CHR 0xAD, CHR 0xA3, CHR 0xE5, CHR 0x9C, CHR 0xA8,
     CHR 0xE5, CHR 0xB0, CHR 0x9D, CHR 0xE8, CHR 0xAF, CHR 0x95, CHR 0xE9, CHR 0x87,
     CHR 0x8D, CHR 0xE6, CHR 0x96, CHR 0xB0, CHR 0xE8, CHR 0xBF, CHR 0x9E, CHR 0xE6,
     CHR 0x8E, CHR 0xA5, CHR 0xE6, CHR 0x95, CHR 0xB0, CHR 0xE6, CHR 0x8D, CHR 0xAE,
     CHR 0xE5, CHR 0xBA, CHR 0x93] @ ''...''"

definition msg_reconnecting_pre :: string where
  "msg_reconnecting_pre = [CHR 0xE6, CHR 0xAD, CHR 0xA3, CHR 0xE5, CHR 0x9C, CHR 0xA8,
     CHR 0xE5, CHR 0xB0, CHR 0x9D, CHR 0xE8, CHR 0xAF, CHR 0x95, CHR 0xE9, CHR 0x87,
     CHR 0x8D, CHR 0xE6, CHR 0x96, CHR 0xB0, CHR 0xE8, CHR 0xBF, CHR 0x9E, CHR 0xE6,
     CHR 0x8E, CHR 0xA5, CHR 0xE6, CHR 0x95, CHR 0xB0, CHR 0xE6, CHR 0x8D, CHR 0xAE,
     CHR 0xE5, CHR 0xBA, CHR 0x93] @ ''... ('' @ [CHR 0xE7, CHR 0xAC, CHR 0xAC] @ '' ''"

definition msg_reconnecting_post :: string where
  "msg_reconnecting_post = '' '' @ [CHR 0xE6, CHR 0xAC, CHR 0xA1, CHR 0xE9, CHR 0x87,
     CHR 0x8D, CHR 0xE8, CHR 0xAF, CHR 0x95] @ '')''"

section \<open>The log aggregator\<close>

type_synonym LogLevel = int

definition LogLevelDebug :: LogLevel where "LogLevelDebug = 0"
definition LogLevelInfo :: LogLevel where "LogLevelInfo = 1"
definition LogLevelWarn :: LogLevel where "LogLevelWarn = 2"
definition LogLevelError :: LogLevel where "LogLevelError = 3"
definition LogLevelFatal :: LogLevel where "LogLevelFatal = 4"

record ConnectionInfo =
  Host :: string
  Port :: string
  Username :: string
  Password :: string
  Database :: string

record LogEntry =
  Level :: LogLevel
  Message :: string
  Timestamp :: time
  Details :: string
  Count :: int
  ConnInfo :: "ConnectionInfo option"

text \<open>
  \<^verbatim>\<open>entries\<close> is a slice of entry values. \<^verbatim>\<open>lastEntry\<close> is a pointer; \<^verbatim>\<open>addEntry\<close> only ever
  assigns it the address of its local variable \<^verbatim>\<open>entry\<close>, whose value has been copied
  into the slice by \<^verbatim>\<open>append\<close>. The pointer therefore names a cell of its own, which no
  slice element shares: the field holds that cell's value.
\<close>

record DatabaseLogger =
  entries :: "LogEntry list"
  maxEntries :: int
  currentLevel :: LogLevel
  lastEntry :: "LogEntry option"
  suppressDuplicates :: bool

definition GetDatabaseLogger :: DatabaseLogger where
  "GetDatabaseLogger =
     \<lparr>entries = [], maxEntries = 100, currentLevel = LogLevelInfo,
      lastEntry = None, suppressDuplicates = True\<rparr>"

definition SetLogLevel :: "LogLevel \<Rightarrow> DatabaseLogger \<Rightarrow> DatabaseLogger" where
  "SetLogLevel level dl = dl\<lparr>currentLevel := level\<rparr>"

definition SetMaxEntries :: "int \<Rightarrow> DatabaseLogger \<Rightarrow> DatabaseLogger" where
  "SetMaxEntries m dl = dl\<lparr>maxEntries := m\<rparr>"

definition SetSuppressDuplicates :: "bool \<Rightarrow> DatabaseLogger \<Rightarrow> DatabaseLogger" where
  "SetSuppressDuplicates suppress dl = dl\<lparr>suppressDuplicates := suppress\<rparr>"

text \<open>The test of \<^verbatim>\<open>addEntry\<close> for a repeated message.\<close>

definition isDuplicate :: "DatabaseLogger \<Rightarrow> LogLevel \<Rightarrow> string \<Rightarrow> bool" where
  "isDuplicate dl level message =
     (suppressDuplicates dl \<and>
      (case lastEntry dl of
         None \<Rightarrow> False
       | Some le \<Rightarrow> Message le = message \<and> Level le = level))"

text \<open>
  \<^verbatim>\<open>addEntry\<close>. The variadic \<^verbatim>\<open>connInfo\<close> is a list of optional pointers. The slice
  expression \<^verbatim>\<open>dl.entries[1:]\<close> panics on an empty slice, which happens when the configured
  maximum is not positive.
\<close>

definition addEntry ::
  "time \<Rightarrow> LogLevel \<Rightarrow> string \<Rightarrow> string \<Rightarrow> ConnectionInfo option list \<Rightarrow>
   DatabaseLogger \<Rightarrow> DatabaseLogger option" where
  "addEntry now level message details connInfo dl =
     (if level < currentLevel dl then Some dl
      else if isDuplicate dl level message then
        Some (dl\<lparr>lastEntry :=
          map_option (\<lambda>le. le\<lparr>Count := Count le + 1, Timestamp := now\<rparr>) (lastEntry dl)\<rparr>)
      else
        let entry0 = \<lparr>Level = level, Message = message, Timestamp = now,
                      Details = details, Count = 1, ConnInfo = None\<rparr>;
            entry = (case connInfo of
                       Some ci # _ \<Rightarrow> entry0\<lparr>ConnInfo := Some ci\<rparr>
                     | _ \<Rightarrow> entry0)
        in if maxEntries dl \<le> int (length (entries dl)) then
             (case entries dl of
                [] \<Rightarrow> None
              | _ # rest \<Rightarrow> Some (dl\<lparr>entries := rest @ [entry], lastEntry := Some entry\<rparr>))
           else Some (dl\<lparr>entries := entries dl @ [entry], lastEntry := Some entry\<rparr>))"

text \<open>The level methods; \<^verbatim>\<open>details\<close> is variadic and only its first element is used.\<close>

definition firstDetail :: "string list \<Rightarrow> string" where
  "firstDetail details = (case details of [] \<Rightarrow> [] | d # _ \<Rightarrow> d)"

definition Debug :: "time \<Rightarrow> string \<Rightarrow> string list \<Rightarrow> DatabaseLogger \<Rightarrow> DatabaseLogger option" where
  "Debug now message details dl = addEntry now LogLevelDebug message (firstDetail details) [] dl"

definition Info :: "time \<Rightarrow> string \<Rightarrow> string list \<Rightarrow> DatabaseLogger \<Rightarrow> DatabaseLogger option" where
  "Info now message details dl = addEntry now LogLevelInfo message (firstDetail details) [] dl"

definition Warn :: "time \<Rightarrow> string \<Rightarrow> string list \<Rightarrow> DatabaseLogger \<Rightarrow> DatabaseLogger option" where
  "Warn now message details dl = addEntry now LogLevelWarn message (firstDetail details) [] dl"

definition Error :: "time \<Rightarrow> string \<Rightarrow> string list \<Rightarrow> DatabaseLogger \<Rightarrow> DatabaseLogger option" where
  "Error now message details dl = addEntry now LogLevelError message (firstDetail details) [] dl"

definition GetEntries :: "DatabaseLogger \<Rightarrow> LogEntry list" where
  "GetEntries dl = entries dl"

definition GetRecentEntries :: "int \<Rightarrow> DatabaseLogger \<Rightarrow> LogEntry list" where
  "GetRecentEntries n dl =
     (if n \<le> 0 \<or> entries dl = [] then []
      else let start = int (length (entries dl)) - n;
               start' = (if start < 0 then 0 else start)
           in drop (nat start') (entries dl))"

definition Clear :: "DatabaseLogger \<Rightarrow> DatabaseLogger" where
  "Clear dl = dl\<lparr>entries := [], lastEntry := None\<rparr>"

text \<open>
  A caller that logs the same level and message once per element of \<open>calls\<close>, each call
  with its clock value and its details.
\<close>

fun logRepeatedly ::
  "(time \<times> string) list \<Rightarrow> LogLevel \<Rightarrow> string \<Rightarrow> DatabaseLogger \<Rightarrow> DatabaseLogger option" where
  "logRepeatedly [] level message dl = Some dl"
| "logRepeatedly ((now, details) # calls) level message dl =
     (case addEntry now level message details [] dl of
        None \<Rightarrow> None
      | Some dl' \<Rightarrow> logRepeatedly calls level message dl')"

text \<open>The bound the buffer is meant to keep.\<close>

definition withinLimit :: "DatabaseLogger \<Rightarrow> bool" where
  "withinLimit dl = (int (length (entries dl)) \<le> maxEntries dl)"

section \<open>The failure classifier\<close>

text \<open>
  \<^verbatim>\<open>ErrorType\<close> is a string type with six named values. The fields of the three structs
  that share names carry the struct's initial: \<open>p\<close> for \<^verbatim>\<open>ErrorPattern\<close>, \<open>d\<close> for
  \<^verbatim>\<open>ErrorDetails\<close>, \<open>s\<close> for \<^verbatim>\<open>ErrorSummary\<close>.
\<close>

type_synonym ErrorType = string

definition ErrorTypeNetwork :: ErrorType where "ErrorTypeNetwork = ''network''"
definition ErrorTypeAuth :: ErrorType where "ErrorTypeAuth = ''authentication''"
definition ErrorTypeConfig :: ErrorType where "ErrorTypeConfig = ''configuration''"
definition ErrorTypeTimeout :: ErrorType where "ErrorTypeTimeout = ''timeout''"
definition ErrorTypeSQL :: ErrorType where "ErrorTypeSQL = ''sql''"
definition ErrorTypeUnknown :: ErrorType where "ErrorTypeUnknown = ''unknown''"

record ErrorPattern =
  pKeywords :: "string list"
  pType :: ErrorType
  pCode :: string
  pCause :: string
  pSuggestion :: string
  pSeverity :: int

record ErrorDetails =
  dType :: ErrorType
  dCode :: string
  dMessage :: string
  dCause :: string
  dSuggestion :: string
  dTimestamp :: string
  dRetryCount :: int

record ErrorSummary =
  sType :: ErrorType
  sCode :: string
  sCount :: int
  FirstSeen :: time
  LastSeen :: time
  FrequencyData :: "string \<rightharpoonup> int"
  Examples :: "string list"
  Resolved :: bool

text \<open>
  The analyzer's \<^verbatim>\<open>logger\<close> field points to the process-wide logger, which the operations
  below take and return beside the analyzer.
\<close>

record ErrorAnalyzer =
  patterns :: "ErrorPattern list"
  summaries :: "string \<rightharpoonup> ErrorSummary"
  maxExamples :: int

definition initializeErrorPatterns :: "ErrorPattern list" where
  "initializeErrorPatterns =
     [\<lparr>pKeywords = [''connection refused'', kw_refused_zh], pType = ErrorTypeNetwork,
       pCode = ''NET_001'', pCause = cause_NET_001, pSuggestion = sugg_NET_001,
       pSeverity = 4\<rparr>,
      \<lparr>pKeywords = [''no route to host'', kw_noroute_zh], pType = ErrorTypeNetwork,
       pCode = ''NET_002'', pCause = cause_NET_002, pSuggestion = sugg_NET_002,
       pSeverity = 4\<rparr>,
      \<lparr>pKeywords = [''timeout'', kw_timeout_zh, ''context deadline exceeded''],
       pType = ErrorTypeTimeout,
       pCode = ''TIME_001'', pCause = cause_TIME_001, pSuggestion = sugg_TIME_001,
       pSeverity = 3\<rparr>,
      \<lparr>pKeywords = [''access denied'', kw_auth_zh, ''authentication failed''],
       pType = ErrorTypeAuth,
       pCode = ''AUTH_001'', pCause = cause_AUTH_001, pSuggestion = sugg_AUTH_001,
       pSeverity = 5\<rparr>,
      \<lparr>pKeywords = [''unknown database'', ''database doesn'' @ [CHR 0x27] @ ''t exist'',
                    kw_nodb_zh],
       pType = ErrorTypeConfig,
       pCode = ''CFG_001'', pCause = cause_CFG_001, pSuggestion = sugg_CFG_001,
       pSeverity = 4\<rparr>,
      \<lparr>pKeywords = [''too many connections'', kw_toomany_zh], pType = ErrorTypeNetwork,
       pCode = ''NET_003'', pCause = cause_NET_003, pSuggestion = sugg_NET_003,
       pSeverity = 3\<rparr>,
      \<lparr>pKeywords = [''disk full'', kw_disk_zh, ''no space left''], pType = ErrorTypeConfig,
       pCode = ''CFG_003'', pCause = cause_CFG_003, pSuggestion = sugg_CFG_003,
       pSeverity = 5\<rparr>,
      \<lparr>pKeywords = [''lock wait timeout'', kw_lock_zh], pType = ErrorTypeSQL,
       pCode = ''SQL_002'', pCause = cause_SQL_002, pSuggestion = sugg_SQL_002,
       pSeverity = 3\<rparr>]"

definition GetErrorAnalyzer :: ErrorAnalyzer where
  "GetErrorAnalyzer =
     \<lparr>patterns = initializeErrorPatterns, summaries = Map.empty, maxExamples = 10\<rparr>"

text \<open>
  \<^verbatim>\<open>matchErrorPattern\<close>: the inner loop over a pattern's keywords, the outer loop over the
  table, and the default pattern after both.
\<close>

fun keywordLoop :: "string \<Rightarrow> string list \<Rightarrow> bool" where
  "keywordLoop errorMsgLower [] = False"
| "keywordLoop errorMsgLower (keyword # keywords) =
     (if Contains errorMsgLower (ToLower keyword) then True
      else keywordLoop errorMsgLower keywords)"

fun patternLoop :: "string \<Rightarrow> ErrorPattern list \<Rightarrow> ErrorPattern option" where
  "patternLoop errorMsgLower [] = None"
| "patternLoop errorMsgLower (pattern # rest) =
     (if keywordLoop errorMsgLower (pKeywords pattern) then Some pattern
      else patternLoop errorMsgLower rest)"

definition unknownPattern :: ErrorPattern where
  "unknownPattern =
     \<lparr>pKeywords = [], pType = ErrorTypeUnknown, pCode = ''UNK_001'',
      pCause = cause_UNK_001, pSuggestion = sugg_UNK_001, pSeverity = 2\<rparr>"

definition matchErrorPattern :: "ErrorAnalyzer \<Rightarrow> string \<Rightarrow> ErrorPattern" where
  "matchErrorPattern ea errorMsg =
     (let errorMsgLower = ToLower errorMsg
      in case patternLoop errorMsgLower (patterns ea) of
           Some pattern \<Rightarrow> pattern
         | None \<Rightarrow> unknownPattern)"

definition enhanceSuggestion :: "ErrorPattern \<Rightarrow> int \<Rightarrow> string" where
  "enhanceSuggestion pattern retryCount =
     (let suggestion = pSuggestion pattern
      in if retryCount > 0 then
           (if pType pattern = ErrorTypeNetwork then
              (if retryCount > 10
               then suggestion @ hint_net_pre @ fmt_d retryCount @ hint_net_post
               else suggestion)
            else if pType pattern = ErrorTypeTimeout then
              (if retryCount > 5
               then suggestion @ hint_time_pre @ fmt_d retryCount @ hint_time_post
               else suggestion)
            else if pType pattern = ErrorTypeAuth then suggestion @ hint_auth
            else suggestion)
         else suggestion)"

definition summaryKey :: "ErrorType \<Rightarrow> string \<Rightarrow> string" where
  "summaryKey t code = t @ ''_'' @ code"

definition updateErrorSummary ::
  "stdfmt \<Rightarrow> ErrorDetails \<Rightarrow> string \<Rightarrow> time \<Rightarrow> ErrorAnalyzer \<Rightarrow> ErrorAnalyzer" where
  "updateErrorSummary F details errorMsg timestamp ea =
     (let key = summaryKey (dType details) (dCode details);
          summary = (case summaries ea key of
                       Some s \<Rightarrow> s
                     | None \<Rightarrow> \<lparr>sType = dType details, sCode = dCode details, sCount = 0,
                                 FirstSeen = timestamp, LastSeen = 0,
                                 FrequencyData = Map.empty, Examples = [],
                                 Resolved = False\<rparr>);
          hourKey = fmtHour F timestamp;
          summary1 = summary\<lparr>sCount := sCount summary + 1, LastSeen := timestamp,
                       FrequencyData := (FrequencyData summary)(hourKey \<mapsto>
                          (case FrequencyData summary hourKey of None \<Rightarrow> 0 | Some c \<Rightarrow> c) + 1)\<rparr>;
          summary2 = (if int (length (Examples summary1)) < maxExamples ea
                         \<and> errorMsg \<notin> set (Examples summary1)
                      then summary1\<lparr>Examples := Examples summary1 @ [errorMsg]\<rparr>
                      else summary1)
      in ea\<lparr>summaries := (summaries ea)(key \<mapsto> summary2)\<rparr>)"

definition logErrorAnalysis ::
  "time \<Rightarrow> ErrorDetails \<Rightarrow> int \<Rightarrow> DatabaseLogger \<Rightarrow> DatabaseLogger option" where
  "logErrorAnalysis now details severity dl =
     (let message = log_analysis_pre @ dCode details @ ''] '' @ dType details;
          logDetails = log_cause_pre @ dCause details @ log_sugg_pre @ dSuggestion details
      in if severity = 5 then Error now message [logDetails] dl
         else if severity = 4 then Warn now message [logDetails] dl
         else if severity = 3 then Info now message [logDetails] dl
         else Debug now message [logDetails] dl)"

text \<open>
  \<^verbatim>\<open>AnalyzeError\<close>. An \<^verbatim>\<open>error\<close> is its message, \<open>None\<close> the nil error; the result is the
  returned details (\<open>None\<close> for nil) with the analyzer and the logger after the call.
\<close>

definition AnalyzeError ::
  "stdfmt \<Rightarrow> time \<Rightarrow> string option \<Rightarrow> int \<Rightarrow> ErrorAnalyzer \<times> DatabaseLogger \<Rightarrow>
   (ErrorDetails option \<times> ErrorAnalyzer \<times> DatabaseLogger) option" where
  "AnalyzeError F now err retryCount st =
     (case err of
        None \<Rightarrow> Some (None, st)
      | Some errorMsg \<Rightarrow>
          let ea = fst st; dl = snd st;
              pattern = matchErrorPattern ea errorMsg;
              details = \<lparr>dType = pType pattern, dCode = pCode pattern, dMessage = errorMsg,
                         dCause = pCause pattern,
                         dSuggestion = enhanceSuggestion pattern retryCount,
                         dTimestamp = fmtDateTime F now, dRetryCount = retryCount\<rparr>;
              ea' = updateErrorSummary F details errorMsg now ea
          in map_option (\<lambda>dl'. (Some details, ea', dl'))
               (logErrorAnalysis now details (pSeverity pattern) dl))"

definition MarkErrorResolved ::
  "time \<Rightarrow> ErrorType \<Rightarrow> string \<Rightarrow> ErrorAnalyzer \<times> DatabaseLogger \<Rightarrow>
   (ErrorAnalyzer \<times> DatabaseLogger) option" where
  "MarkErrorResolved now errorType code st =
     (let ea = fst st; dl = snd st; key = summaryKey errorType code
      in case summaries ea key of
           None \<Rightarrow> Some st
         | Some summary \<Rightarrow>
             map_option (\<lambda>dl'. (ea\<lparr>summaries := (summaries ea)(key \<mapsto> summary\<lparr>Resolved := True\<rparr>)\<rparr>, dl'))
               (Info now (log_resolved_pre @ code @ ''] '' @ errorType) [] dl))"

text \<open>
  \<^verbatim>\<open>ClearOldErrors\<close>. A \<^verbatim>\<open>range\<close> over a Go map visits the keys in an order the run time
  chooses: \<open>order\<close> is that order, a list of the keys present when the loop starts. Only the
  key being visited is ever deleted, so each key is visited once; a key of \<open>order\<close> that
  is no longer in the map is passed over.
\<close>

fun clearLoop ::
  "time \<Rightarrow> string list \<Rightarrow> (string \<rightharpoonup> ErrorSummary) \<Rightarrow> int \<Rightarrow>
   (string \<rightharpoonup> ErrorSummary) \<times> int" where
  "clearLoop cutoff [] m cleared = (m, cleared)"
| "clearLoop cutoff (key # keys) m cleared =
     (case m key of
        None \<Rightarrow> clearLoop cutoff keys m cleared
      | Some summary \<Rightarrow>
          if Before (LastSeen summary) cutoff
          then clearLoop cutoff keys (m(key := None)) (cleared + 1)
          else clearLoop cutoff keys m cleared)"

definition ClearOldErrors ::
  "time \<Rightarrow> string list \<Rightarrow> duration \<Rightarrow> ErrorAnalyzer \<times> DatabaseLogger \<Rightarrow>
   (int \<times> ErrorAnalyzer \<times> DatabaseLogger) option" where
  "ClearOldErrors now order olderThan st =
     (let ea = fst st; dl = snd st;
          cutoff = Add now (- olderThan);
          res = clearLoop cutoff order (summaries ea) 0;
          ea' = ea\<lparr>summaries := fst res\<rparr>;
          cleared = snd res
      in if cleared > 0
         then map_option (\<lambda>dl'. (cleared, ea', dl'))
                (Info now (log_cleared_pre @ fmt_d cleared @ log_cleared_post) [] dl)
         else Some (cleared, ea', dl))"

text \<open>A rendering for worked examples: every layout prints the number of nanoseconds.\<close>

definition numericFmt :: stdfmt where
  "numericFmt =
     \<lparr>fmtDateTime = fmt_d, fmtHour = fmt_d, fmtDuration = (\<lambda>d. fmt_d (sint d)),
      fmtElapsed = (\<lambda>now start. fmt_d (now - start))\<rparr>"


definition retryHint :: "ErrorType \<Rightarrow> int \<Rightarrow> string" where
  "retryHint t retryCount =
     (if t = ErrorTypeNetwork \<and> retryCount > 10
        then hint_net_pre @ fmt_d retryCount @ hint_net_post
      else if t = ErrorTypeTimeout \<and> retryCount > 5
        then hint_time_pre @ fmt_d retryCount @ hint_time_post
      else if t = ErrorTypeAuth \<and> retryCount > 0 then hint_auth
      else [])"

text \<open>The summaries a purge at \<open>now\<close> with age \<open>olderThan\<close> is to remove.\<close>

definition isOld :: "time \<Rightarrow> duration \<Rightarrow> ErrorSummary \<Rightarrow> bool" where
  "isOld now olderThan summary = (LastSeen summary < now - sint olderThan)"

definition purged :: "time \<Rightarrow> duration \<Rightarrow> (string \<rightharpoonup> ErrorSummary) \<Rightarrow> (string \<rightharpoonup> ErrorSummary)" where
  "purged now olderThan m =
     (\<lambda>key. case m key of
               None \<Rightarrow> None
             | Some summary \<Rightarrow> if isOld now olderThan summary then None else Some summary)"

definition oldKeys :: "time \<Rightarrow> duration \<Rightarrow> (string \<rightharpoonup> ErrorSummary) \<Rightarrow> string set" where
  "oldKeys now olderThan m = {key. \<exists>summary. m key = Some summary \<and> isOld now olderThan summary}"

text \<open>The same two notions for a cutoff instant, as the loop of the purge sees them.\<close>

definition keepRecent :: "time \<Rightarrow> ErrorSummary option \<Rightarrow> ErrorSummary option" where
  "keepRecent cutoff v =
     (case v of None \<Rightarrow> None | Some s \<Rightarrow> if LastSeen s < cutoff then None else Some s)"

definition oldIn :: "time \<Rightarrow> (string \<rightharpoonup> ErrorSummary) \<Rightarrow> string \<Rightarrow> bool" where
  "oldIn cutoff m k = (\<exists>s. m k = Some s \<and> LastSeen s < cutoff)"

text \<open>The least duration, \<^verbatim>\<open>math.MinInt64\<close> nanoseconds: the one value whose negation wraps.\<close>

definition minDuration :: duration where
  "minDuration = - 9223372036854775808"

text \<open>A summary map with two keys, for worked examples.\<close>

definition summarySeenAt :: "ErrorType \<Rightarrow> string \<Rightarrow> time \<Rightarrow> ErrorSummary" where
  "summarySeenAt t code seen =
     \<lparr>sType = t, sCode = code, sCount = 1, FirstSeen = seen, LastSeen = seen,
      FrequencyData = Map.empty, Examples = [], Resolved = False\<rparr>"

definition twoSummaries :: "string \<rightharpoonup> ErrorSummary" where
  "twoSummaries =
     [''network_NET_001'' \<mapsto> summarySeenAt ErrorTypeNetwork ''NET_001'' 850,
      ''timeout_TIME_001'' \<mapsto> summarySeenAt ErrorTypeTimeout ''TIME_001'' 950]"

section \<open>Properties of the log aggregator\<close>

lemma addEntry_below_level:
  "level < currentLevel dl \<Longrightarrow> addEntry now level message details ci dl = Some dl"
  by (simp add: addEntry_def)

lemma addEntry_duplicate:
  assumes "\<not> level < currentLevel dl" and "isDuplicate dl level message"
  shows "addEntry now level message details ci dl =
           Some (dl\<lparr>lastEntry :=
             map_option (\<lambda>le. le\<lparr>Count := Count le + 1, Timestamp := now\<rparr>) (lastEntry dl)\<rparr>)"
  using assms by (simp add: addEntry_def)

lemma addEntry_fresh:
  assumes "\<not> level < currentLevel dl" and "\<not> isDuplicate dl level message"
    and "0 < maxEntries dl"
  shows "addEntry now level message details [] dl =
           Some (dl\<lparr>entries :=
                    (if maxEntries dl \<le> int (length (entries dl)) then tl (entries dl)
                     else entries dl) @
                    [\<lparr>Level = level, Message = message, Timestamp = now,
                      Details = details, Count = 1, ConnInfo = None\<rparr>],
                  lastEntry := Some \<lparr>Level = level, Message = message, Timestamp = now,
                      Details = details, Count = 1, ConnInfo = None\<rparr>\<rparr>)"
  using assms by (cases "entries dl") (simp_all add: addEntry_def Let_def)

text \<open>
  Once the last-entry cell holds the level and message being logged, every further call
  only rewrites that cell: the buffer is not touched.
\<close>

lemma logRepeatedly_duplicates:
  assumes "\<not> level < currentLevel dl" and "suppressDuplicates dl"
    and "lastEntry dl = Some le" and "Message le = message" and "Level le = level"
  shows "logRepeatedly calls level message dl =
           Some (dl\<lparr>lastEntry := Some (le\<lparr>Count := Count le + int (length calls),
                                          Timestamp := last (Timestamp le # map fst calls)\<rparr>)\<rparr>)"
  using assms
proof (induction calls arbitrary: dl le)
  case Nil
  then show ?case by simp
next
  case (Cons c calls)
  obtain now details where c: "c = (now, details)" by (cases c)
  let ?le = "le\<lparr>Count := Count le + 1, Timestamp := now\<rparr>"
  let ?dl = "dl\<lparr>lastEntry := Some ?le\<rparr>"
  have dup: "isDuplicate dl level message"
    using Cons.prems by (simp add: isDuplicate_def)
  have step: "addEntry now level message details [] dl = Some ?dl"
    using addEntry_duplicate [OF Cons.prems(1) dup] Cons.prems(3) by simp
  have "logRepeatedly calls level message ?dl =
          Some (?dl\<lparr>lastEntry := Some (?le\<lparr>Count := Count ?le + int (length calls),
                  Timestamp := last (Timestamp ?le # map fst calls)\<rparr>)\<rparr>)"
    using Cons.prems by (intro Cons.IH) simp_all
  then show ?case
    using step c by (cases calls) simp_all
qed

text \<open>
  Claim C1. For \<open>N \<ge> 1\<close> consecutive calls with the same level and message, suppression
  enabled and the level at or above the threshold, the claim asks for one stored entry
  whose repeat counter is \<open>N\<close>. The code stores one entry, and counts the repeats in the
  cell behind \<^verbatim>\<open>lastEntry\<close>, which is a copy: the entry in the buffer keeps the counter 1
  and the time of the first call, whatever \<open>N\<close> is.
\<close>

theorem C1_stored_entry_keeps_count_one:
  assumes "\<not> level < currentLevel dl" and "suppressDuplicates dl"
    and "\<not> isDuplicate dl level message" and "0 < maxEntries dl"
    and "calls = (t0, d0) # rest"
    and "e1 = \<lparr>Level = level, Message = message, Timestamp = t0,
                Details = d0, Count = 1, ConnInfo = None\<rparr>"
  shows "logRepeatedly calls level message dl =
           Some (dl\<lparr>entries :=
                    (if maxEntries dl \<le> int (length (entries dl)) then tl (entries dl)
                     else entries dl) @ [e1],
                  lastEntry := Some (e1\<lparr>Count := int (length calls),
                                        Timestamp := last (map fst calls)\<rparr>)\<rparr>)"
proof -
  let ?dl1 = "dl\<lparr>entries :=
                    (if maxEntries dl \<le> int (length (entries dl)) then tl (entries dl)
                     else entries dl) @ [e1],
                  lastEntry := Some e1\<rparr>"
  have first: "addEntry t0 level message d0 [] dl = Some ?dl1"
    using addEntry_fresh [OF assms(1) assms(3) assms(4)] assms(6) by simp
  have "logRepeatedly rest level message ?dl1 =
          Some (?dl1\<lparr>lastEntry := Some (e1\<lparr>Count := Count e1 + int (length rest),
                  Timestamp := last (Timestamp e1 # map fst rest)\<rparr>)\<rparr>)"
    using assms(1,2,6) by (intro logRepeatedly_duplicates) simp_all
  then show ?thesis
    using first assms(5,6) by (cases rest) simp_all
qed

theorem C1_three_calls_witness:
  "logRepeatedly [(10, ''first''), (20, ''second''), (30, ''third'')]
       LogLevelWarn ''connection lost'' GetDatabaseLogger =
     Some (GetDatabaseLogger
       \<lparr>entries := [\<lparr>Level = LogLevelWarn, Message = ''connection lost'', Timestamp = 10,
                      Details = ''first'', Count = 1, ConnInfo = None\<rparr>],
        lastEntry := Some \<lparr>Level = LogLevelWarn, Message = ''connection lost'',
                      Timestamp = 30, Details = ''first'', Count = 3, ConnInfo = None\<rparr>\<rparr>)"
  using C1_stored_entry_keeps_count_one
    [of LogLevelWarn GetDatabaseLogger "''connection lost''"
        "[(10, ''first''), (20, ''second''), (30, ''third'')]" 10 "''first''"
        "[(20, ''second''), (30, ''third'')]"
        "\<lparr>Level = LogLevelWarn, Message = ''connection lost'', Timestamp = 10,
          Details = ''first'', Count = 1, ConnInfo = None\<rparr>"]
  by (simp add: GetDatabaseLogger_def LogLevelWarn_def LogLevelInfo_def isDuplicate_def)

text \<open>What the buffer's bound needs from each operation.\<close>

lemma addEntry_withinLimit:
  assumes "withinLimit dl" and "addEntry now level message details ci dl = Some dl'"
  shows "withinLimit dl'"
  using assms
  by (auto simp: addEntry_def withinLimit_def Let_def
           split: if_splits list.splits option.splits)

lemma addEntry_returns:
  assumes "0 < maxEntries dl"
  shows "\<exists>dl'. addEntry now level message details ci dl = Some dl' \<and>
               maxEntries dl' = maxEntries dl"
  using assms
  by (auto simp: addEntry_def Let_def split: list.splits option.splits)

lemma Clear_withinLimit: "withinLimit dl \<Longrightarrow> withinLimit (Clear dl)"
  by (simp add: withinLimit_def Clear_def)

lemma SetLogLevel_withinLimit: "withinLimit (SetLogLevel l dl) = withinLimit dl"
  by (simp add: withinLimit_def SetLogLevel_def)

lemma SetSuppressDuplicates_withinLimit:
  "withinLimit (SetSuppressDuplicates b dl) = withinLimit dl"
  by (simp add: withinLimit_def SetSuppressDuplicates_def)

lemma SetMaxEntries_withinLimit:
  "withinLimit (SetMaxEntries m dl) = (int (length (entries dl)) \<le> m)"
  by (simp add: withinLimit_def SetMaxEntries_def)

text \<open>
  After the maximum has been lowered below the current length, \<^verbatim>\<open>addEntry\<close> drops one entry
  and appends one: the length stays where it was.
\<close>

lemma addEntry_over_limit_keeps_length:
  assumes "maxEntries dl < int (length (entries dl))" and "0 \<le> maxEntries dl"
    and "\<not> level < currentLevel dl" and "\<not> isDuplicate dl level message"
  shows "\<exists>dl'. addEntry now level message details ci dl = Some dl' \<and>
               length (entries dl') = length (entries dl) \<and> \<not> withinLimit dl'"
  using assms
  by (cases "entries dl")
     (auto simp: addEntry_def Let_def withinLimit_def split: list.splits option.splits)

text \<open>
  Claim C8. The buffer is to hold at most the configured maximum after every operation,
  \<^verbatim>\<open>SetMaxEntries\<close> included. \<^verbatim>\<open>SetMaxEntries\<close> does not trim: with two entries stored,
  lowering the maximum to 1 leaves two entries, and the next \<^verbatim>\<open>addEntry\<close> still leaves two.
\<close>

theorem C8_lowered_maximum_is_exceeded:
  "map_option (\<lambda>dl. (length (entries dl), maxEntries dl, withinLimit dl))
       (Option.bind (Info 1 ''a'' [] GetDatabaseLogger) (Info 2 ''b'' [])) =
     Some (2, 100, True) \<and>
   map_option (\<lambda>dl. (length (entries (SetMaxEntries 1 dl)), maxEntries (SetMaxEntries 1 dl),
                      withinLimit (SetMaxEntries 1 dl)))
       (Option.bind (Info 1 ''a'' [] GetDatabaseLogger) (Info 2 ''b'' [])) =
     Some (2, 1, False) \<and>
   map_option (\<lambda>dl. (length (entries dl), maxEntries dl, withinLimit dl))
       (Option.bind (Option.bind (Info 1 ''a'' [] GetDatabaseLogger) (Info 2 ''b'' []))
          (\<lambda>dl. Info 3 ''c'' [] (SetMaxEntries 1 dl))) =
     Some (2, 1, False)"
  by (simp add: Info_def addEntry_def GetDatabaseLogger_def SetMaxEntries_def firstDetail_def
        isDuplicate_def withinLimit_def LogLevelInfo_def Let_def)

section \<open>Properties of the failure classifier\<close>








lemma ToLower_lowercase_literal:
  "ToLower ''connection refused'' = ''connection refused''"
  by (simp add: ToLower_def lowerByte_def)

lemma first_pattern_of_table:
  assumes "Contains (ToLower msg) ''connection refused''"
  shows "patternLoop (ToLower msg) initializeErrorPatterns = Some (hd initializeErrorPatterns)"
  using assms by (simp add: initializeErrorPatterns_def ToLower_lowercase_literal)




lemma logErrorAnalysis_returns:
  assumes "0 < maxEntries dl"
  shows "\<exists>dl'. logErrorAnalysis now details severity dl = Some dl' \<and>
               maxEntries dl' = maxEntries dl"
  using addEntry_returns [OF assms]
  by (simp add: logErrorAnalysis_def Let_def Error_def Warn_def Info_def Debug_def)

lemma AnalyzeError_returns:
  assumes "0 < maxEntries dl"
  shows "\<exists>dl'. AnalyzeError F now (Some msg) retryCount (ea, dl) =
           Some (Some \<lparr>dType = pType (matchErrorPattern ea msg),
                        dCode = pCode (matchErrorPattern ea msg), dMessage = msg,
                        dCause = pCause (matchErrorPattern ea msg),
                        dSuggestion = enhanceSuggestion (matchErrorPattern ea msg) retryCount,
                        dTimestamp = fmtDateTime F now, dRetryCount = retryCount\<rparr>,
                 updateErrorSummary F
                   \<lparr>dType = pType (matchErrorPattern ea msg),
                    dCode = pCode (matchErrorPattern ea msg), dMessage = msg,
                    dCause = pCause (matchErrorPattern ea msg),
                    dSuggestion = enhanceSuggestion (matchErrorPattern ea msg) retryCount,
                    dTimestamp = fmtDateTime F now, dRetryCount = retryCount\<rparr> msg now ea,
                 dl') \<and>
           maxEntries dl' = maxEntries dl"
proof -
  let ?d = "\<lparr>dType = pType (matchErrorPattern ea msg),
                        dCode = pCode (matchErrorPattern ea msg), dMessage = msg,
                        dCause = pCause (matchErrorPattern ea msg),
                        dSuggestion = enhanceSuggestion (matchErrorPattern ea msg) retryCount,
                        dTimestamp = fmtDateTime F now, dRetryCount = retryCount\<rparr>"
  obtain dl' where "logErrorAnalysis now ?d (pSeverity (matchErrorPattern ea msg)) dl = Some dl'"
    and "maxEntries dl' = maxEntries dl"
    using logErrorAnalysis_returns [OF assms] by blast
  then show ?thesis
    by (simp add: AnalyzeError_def Let_def)
qed

lemma enhanceSuggestion_retryHint:
  "enhanceSuggestion p n = pSuggestion p @ retryHint (pType p) n"
  by (simp add: enhanceSuggestion_def retryHint_def Let_def
        ErrorTypeNetwork_def ErrorTypeTimeout_def ErrorTypeAuth_def)

lemma ToLower_access_denied:
  "ToLower ''Error 1045: Access denied for user'' = ''error 1045: access denied for user''"
  by (simp add: ToLower_def lowerByte_def)

lemma patternLoop_access_denied:
  "patternLoop ''error 1045: access denied for user'' initializeErrorPatterns =
     Some (initializeErrorPatterns ! 3)"
  by (simp add: initializeErrorPatterns_def ToLower_def lowerByte_def
        kw_refused_zh_def kw_noroute_zh_def kw_timeout_zh_def)

lemma fourth_pattern:
  "initializeErrorPatterns ! 3 =
     \<lparr>pKeywords = [''access denied'', kw_auth_zh, ''authentication failed''],
      pType = ErrorTypeAuth, pCode = ''AUTH_001'', pCause = cause_AUTH_001,
      pSuggestion = sugg_AUTH_001, pSeverity = 5\<rparr>"
  by (simp add: initializeErrorPatterns_def)

lemma match_access_denied:
  "matchErrorPattern GetErrorAnalyzer ''Error 1045: Access denied for user'' =
     \<lparr>pKeywords = [''access denied'', kw_auth_zh, ''authentication failed''],
      pType = ErrorTypeAuth, pCode = ''AUTH_001'', pCause = cause_AUTH_001,
      pSuggestion = sugg_AUTH_001, pSeverity = 5\<rparr>"
  by (simp add: matchErrorPattern_def GetErrorAnalyzer_def ToLower_access_denied
        patternLoop_access_denied fourth_pattern)

lemma match_refused:
  "matchErrorPattern GetErrorAnalyzer ''dial tcp: connection refused'' =
     hd initializeErrorPatterns"
proof -
  have "ToLower ''dial tcp: connection refused'' = ''dial tcp: connection refused''"
    by (simp add: ToLower_def lowerByte_def)
  moreover have "Contains ''dial tcp: connection refused'' ''connection refused''"
    by simp
  ultimately show ?thesis
    using first_pattern_of_table [of "''dial tcp: connection refused''"]
    by (simp add: matchErrorPattern_def GetErrorAnalyzer_def)
qed

text \<open>
  Claim C3, as the code has it. The suggestion \<^verbatim>\<open>AnalyzeError\<close> returns is the matched
  pattern's suggestion followed by the retry-aware hint: for a network error the stability
  hint exactly when the retry count exceeds 10, for a timeout the timeout-configuration
  hint exactly when it exceeds 5, and for an authentication error the immediate-check hint
  exactly when the retry count is positive: the whole \<^verbatim>\<open>switch\<close> stands under the guard
  \<^verbatim>\<open>retryCount > 0\<close>. (The logger is one that can take an entry.)
\<close>

theorem C3_suggestion_with_retry_hint:
  assumes "0 < maxEntries dl"
  shows "\<exists>d ea' dl'.
           AnalyzeError F now (Some msg) retryCount (ea, dl) = Some (Some d, ea', dl') \<and>
           dSuggestion d =
             pSuggestion (matchErrorPattern ea msg) @
             retryHint (pType (matchErrorPattern ea msg)) retryCount"
proof -
  obtain dl' where
    "AnalyzeError F now (Some msg) retryCount (ea, dl) =
           Some (Some \<lparr>dType = pType (matchErrorPattern ea msg),
                        dCode = pCode (matchErrorPattern ea msg), dMessage = msg,
                        dCause = pCause (matchErrorPattern ea msg),
                        dSuggestion = enhanceSuggestion (matchErrorPattern ea msg) retryCount,
                        dTimestamp = fmtDateTime F now, dRetryCount = retryCount\<rparr>,
                 updateErrorSummary F
                   \<lparr>dType = pType (matchErrorPattern ea msg),
                    dCode = pCode (matchErrorPattern ea msg), dMessage = msg,
                    dCause = pCause (matchErrorPattern ea msg),
                    dSuggestion = enhanceSuggestion (matchErrorPattern ea msg) retryCount,
                    dTimestamp = fmtDateTime F now, dRetryCount = retryCount\<rparr> msg now ea,
                 dl')"
    using AnalyzeError_returns [OF assms] by blast
  then show ?thesis
    by (simp add: enhanceSuggestion_retryHint)
qed

theorem C3_eleventh_network_failure_witness:
  "0 < maxEntries GetDatabaseLogger \<and>
   (\<exists>d ea' dl'.
      AnalyzeError numericFmt 0 (Some ''dial tcp: connection refused'') 11
        (GetErrorAnalyzer, GetDatabaseLogger) = Some (Some d, ea', dl') \<and>
      dSuggestion d = sugg_NET_001 @ hint_net_pre @ ''11'' @ hint_net_post)"
proof -
  have h: "0 < maxEntries GetDatabaseLogger"
    by (simp add: GetDatabaseLogger_def)
  have p: "pSuggestion (hd initializeErrorPatterns) = sugg_NET_001"
    "pType (hd initializeErrorPatterns) = ErrorTypeNetwork"
    by (simp_all add: initializeErrorPatterns_def)
  have r: "retryHint ErrorTypeNetwork 11 = hint_net_pre @ ''11'' @ hint_net_post"
    by (simp add: retryHint_def fmt_d_def digits.simps)
  show ?thesis
    using h C3_suggestion_with_retry_hint
      [OF h, of numericFmt 0 "''dial tcp: connection refused''" 11 GetErrorAnalyzer]
    by (simp add: match_refused p r)
qed

text \<open>
  The claim as stated has the authentication hint appended whatever the retry count. At
  retry count 0 (the count \<^verbatim>\<open>InitDB\<close> passes) an access-denied error gets the pattern's
  suggestion and nothing more.
\<close>

theorem C3_auth_hint_absent_at_zero_counterexample:
  "map_option (\<lambda>r. map_option (\<lambda>d. (dType d, dCode d, dRetryCount d,
                                     dSuggestion d = sugg_AUTH_001,
                                     dSuggestion d = sugg_AUTH_001 @ hint_auth)) (fst r))
     (AnalyzeError numericFmt 0 (Some ''Error 1045: Access denied for user'') 0
        (GetErrorAnalyzer, GetDatabaseLogger)) =
   Some (Some (ErrorTypeAuth, ''AUTH_001'', 0, True, False))"
proof -
  have h: "0 < maxEntries GetDatabaseLogger"
    by (simp add: GetDatabaseLogger_def)
  have e: "enhanceSuggestion
             \<lparr>pKeywords = [''access denied'', kw_auth_zh, ''authentication failed''],
              pType = ErrorTypeAuth, pCode = ''AUTH_001'', pCause = cause_AUTH_001,
              pSuggestion = sugg_AUTH_001, pSeverity = 5\<rparr> 0 = sugg_AUTH_001"
    by (simp add: enhanceSuggestion_def)
  have n: "hint_auth \<noteq> []"
    by (simp add: hint_auth_def)
  obtain dl' where
    "AnalyzeError numericFmt 0 (Some ''Error 1045: Access denied for user'') 0
        (GetErrorAnalyzer, GetDatabaseLogger) =
      Some (Some \<lparr>dType = ErrorTypeAuth, dCode = ''AUTH_001'',
                   dMessage = ''Error 1045: Access denied for user'',
                   dCause = cause_AUTH_001, dSuggestion = sugg_AUTH_001,
                   dTimestamp = fmtDateTime numericFmt 0, dRetryCount = 0\<rparr>,
            updateErrorSummary numericFmt
              \<lparr>dType = ErrorTypeAuth, dCode = ''AUTH_001'',
                dMessage = ''Error 1045: Access denied for user'',
                dCause = cause_AUTH_001, dSuggestion = sugg_AUTH_001,
                dTimestamp = fmtDateTime numericFmt 0, dRetryCount = 0\<rparr>
              ''Error 1045: Access denied for user'' 0 GetErrorAnalyzer,
            dl')"
    using AnalyzeError_returns
      [OF h, of numericFmt 0 "''Error 1045: Access denied for user''" 0 GetErrorAnalyzer]
    unfolding match_access_denied e by auto
  then show ?thesis
    using n by simp
qed

section \<open>The purge of old summaries\<close>

lemma sint_neg:
  fixes d :: duration
  assumes "d \<noteq> minDuration"
  shows "sint (- d) = - sint d"
proof -
  have ne: "sint d \<noteq> - 9223372036854775808"
  proof
    assume "sint d = - 9223372036854775808"
    then have "sint d = sint minDuration" by (simp add: minDuration_def)
    then have "d = minDuration" by (rule signed_word_eqI)
    with assms show False by simp
  qed
  have "- 9223372036854775808 \<le> sint d" "sint d < 9223372036854775808"
    using sint_ge [of d] sint_lt [of d] by simp_all
  with ne have "- (2 ^ 63) \<le> - sint d" "- sint d < (2::int) ^ 63"
    by simp_all
  then have "signed_take_bit 63 (- sint d) = - sint d"
    by (rule signed_take_bit_int_eq_self)
  then show ?thesis
    by (simp add: sint_word_minus)
qed

lemma clearLoop_step_gone:
  "m key = None \<Longrightarrow> clearLoop cutoff (key # keys) m c = clearLoop cutoff keys m c"
  by simp

lemma clearLoop_step_old:
  "m key = Some s \<Longrightarrow> LastSeen s < cutoff \<Longrightarrow>
   clearLoop cutoff (key # keys) m c = clearLoop cutoff keys (m(key := None)) (c + 1)"
  by (simp add: Before_def)

lemma clearLoop_step_recent:
  "m key = Some s \<Longrightarrow> \<not> LastSeen s < cutoff \<Longrightarrow>
   clearLoop cutoff (key # keys) m c = clearLoop cutoff keys m c"
  by (simp add: Before_def)

lemma clearLoop_map:
  "fst (clearLoop cutoff order m c) k =
     (if k \<in> set order then keepRecent cutoff (m k) else m k)"
proof (induction order arbitrary: m c)
  case Nil
  then show ?case by simp
next
  case (Cons key keys)
  show ?case
  proof (cases "m key")
    case None
    have "fst (clearLoop cutoff (key # keys) m c) k = fst (clearLoop cutoff keys m c) k"
      by (simp only: clearLoop_step_gone [of m key, OF None])
    also have "\<dots> = (if k \<in> set keys then keepRecent cutoff (m k) else m k)"
      by (rule Cons.IH)
    also have "\<dots> = (if k \<in> set (key # keys) then keepRecent cutoff (m k) else m k)"
      using None by (simp add: keepRecent_def)
    finally show ?thesis .
  next
    case (Some s)
    show ?thesis
    proof (cases "LastSeen s < cutoff")
      case True
      have "fst (clearLoop cutoff (key # keys) m c) k =
            fst (clearLoop cutoff keys (m(key := None)) (c + 1)) k"
        by (simp only: clearLoop_step_old [of m key, OF Some True])
      also have "\<dots> = (if k \<in> set keys then keepRecent cutoff ((m(key := None)) k)
                        else (m(key := None)) k)"
        by (rule Cons.IH)
      also have "\<dots> = (if k \<in> set (key # keys) then keepRecent cutoff (m k) else m k)"
        using Some True by (simp add: keepRecent_def)
      finally show ?thesis .
    next
      case False
      have "fst (clearLoop cutoff (key # keys) m c) k = fst (clearLoop cutoff keys m c) k"
        by (simp only: clearLoop_step_recent [of m key, OF Some False])
      also have "\<dots> = (if k \<in> set keys then keepRecent cutoff (m k) else m k)"
        by (rule Cons.IH)
      also have "\<dots> = (if k \<in> set (key # keys) then keepRecent cutoff (m k) else m k)"
        using Some False by (simp add: keepRecent_def)
      finally show ?thesis .
    qed
  qed
qed

lemma clearLoop_count:
  assumes "distinct order"
  shows "snd (clearLoop cutoff order m c) = c + int (length (filter (oldIn cutoff m) order))"
  using assms
proof (induction order arbitrary: m c)
  case Nil
  then show ?case by simp
next
  case (Cons key keys)
  have d: "distinct keys" and nk: "key \<notin> set keys" using Cons.prems by simp_all
  show ?case
  proof (cases "m key")
    case None
    have "snd (clearLoop cutoff (key # keys) m c) = snd (clearLoop cutoff keys m c)"
      by (simp only: clearLoop_step_gone [of m key, OF None])
    also have "\<dots> = c + int (length (filter (oldIn cutoff m) keys))"
      by (rule Cons.IH [OF d])
    finally show ?thesis
      using None oldIn_def [of cutoff m key] by simp
  next
    case (Some s)
    show ?thesis
    proof (cases "LastSeen s < cutoff")
      case True
      have same: "filter (oldIn cutoff (m(key := None))) keys = filter (oldIn cutoff m) keys"
      proof (rule filter_cong [OF refl])
        fix x assume "x \<in> set keys"
        then have "x \<noteq> key" using nk by blast
        then show "oldIn cutoff (m(key := None)) x = oldIn cutoff m x"
          by (simp add: oldIn_def)
      qed
      have "snd (clearLoop cutoff (key # keys) m c) =
            snd (clearLoop cutoff keys (m(key := None)) (c + 1))"
        by (simp only: clearLoop_step_old [of m key, OF Some True])
      also have "\<dots> = c + 1 + int (length (filter (oldIn cutoff (m(key := None))) keys))"
        by (rule Cons.IH [OF d])
      finally show ?thesis
        using Some True same oldIn_def [of cutoff m key] by simp
    next
      case False
      have "snd (clearLoop cutoff (key # keys) m c) = snd (clearLoop cutoff keys m c)"
        by (simp only: clearLoop_step_recent [of m key, OF Some False])
      also have "\<dots> = c + int (length (filter (oldIn cutoff m) keys))"
        by (rule Cons.IH [OF d])
      finally show ?thesis
        using Some False oldIn_def [of cutoff m key] by simp
    qed
  qed
qed

lemma clearLoop_purged:
  assumes "set order = dom m" and "olderThan \<noteq> minDuration"
  shows "fst (clearLoop (Add now (- olderThan)) order m c) = purged now olderThan m"
proof
  fix k
  have cut: "Add now (- olderThan) = now - sint olderThan"
    by (simp add: Add_def sint_neg [OF assms(2)])
  show "fst (clearLoop (Add now (- olderThan)) order m c) k = purged now olderThan m k"
  proof (cases "m k")
    case None
    then have "k \<notin> set order" using assms(1) by (simp add: domIff)
    then show ?thesis using None by (simp add: clearLoop_map purged_def)
  next
    case (Some s)
    then have "k \<in> set order" using assms(1) by (simp add: domIff)
    then show ?thesis
      using Some by (simp add: clearLoop_map purged_def keepRecent_def isOld_def cut)
  qed
qed

lemma clearLoop_oldKeys:
  assumes "distinct order" and "set order = dom m" and "olderThan \<noteq> minDuration"
  shows "snd (clearLoop (Add now (- olderThan)) order m 0) =
           int (card (oldKeys now olderThan m))"
proof -
  have cut: "Add now (- olderThan) = now - sint olderThan"
    by (simp add: Add_def sint_neg [OF assms(3)])
  have "set (filter (oldIn (now - sint olderThan) m) order) = oldKeys now olderThan m"
    using assms(2) by (auto simp: oldIn_def oldKeys_def isOld_def domIff)
  moreover have "distinct (filter (oldIn (now - sint olderThan) m) order)"
    using assms(1) by simp
  ultimately have "card (oldKeys now olderThan m) =
                   length (filter (oldIn (now - sint olderThan) m) order)"
    using distinct_card by metis
  then show ?thesis
    using clearLoop_count [OF assms(1), of "now - sint olderThan" m 0] cut by simp
qed

text \<open>
  Claim C7, as the code has it. For every duration \<^verbatim>\<open>olderThan\<close> but the least one and every
  summary map, whatever the order in which the map is ranged over, \<^verbatim>\<open>ClearOldErrors\<close>
  removes exactly the summaries whose \<^verbatim>\<open>lastSeen\<close> is strictly earlier than \<open>now\<close> minus
  \<^verbatim>\<open>olderThan\<close>, returns their number and leaves every other summary, and every other
  field of the analyzer, as it was. (The logger, which takes one line when something was
  removed, is one that can take an entry.)
\<close>

theorem C7_purge_removes_exactly_the_old:
  assumes "distinct order" and "set order = dom (summaries ea)"
    and "olderThan \<noteq> minDuration" and "0 < maxEntries dl"
  shows "\<exists>dl'. ClearOldErrors now order olderThan (ea, dl) =
           Some (int (card (oldKeys now olderThan (summaries ea))),
                 ea\<lparr>summaries := purged now olderThan (summaries ea)\<rparr>, dl')"
proof -
  let ?res = "clearLoop (Add now (- olderThan)) order (summaries ea) 0"
  have m: "fst ?res = purged now olderThan (summaries ea)"
    using assms(2,3) by (rule clearLoop_purged)
  have n: "snd ?res = int (card (oldKeys now olderThan (summaries ea)))"
    using assms(1,2,3) by (rule clearLoop_oldKeys)
  obtain dl' where
    "Info now (log_cleared_pre @ fmt_d (snd ?res) @ log_cleared_post) [] dl = Some dl'"
    using addEntry_returns [OF assms(4)] unfolding Info_def by blast
  then show ?thesis
    by (cases "0 < snd ?res") (simp_all add: ClearOldErrors_def Let_def m n)
qed

lemma twoSummaries_dom:
  "dom twoSummaries = {''network_NET_001'', ''timeout_TIME_001''}"
  by (auto simp: twoSummaries_def)

lemma twoSummaries_oldKeys: "oldKeys 1000 100 twoSummaries = {''network_NET_001''}"
  by (auto simp: oldKeys_def twoSummaries_def isOld_def summarySeenAt_def split: if_splits)

theorem C7_two_summaries_witness:
  "distinct [''timeout_TIME_001'', ''network_NET_001''] \<and>
   set [''timeout_TIME_001'', ''network_NET_001''] = dom twoSummaries \<and>
   (100 :: duration) \<noteq> minDuration \<and> 0 < maxEntries GetDatabaseLogger \<and>
   (\<exists>dl'. ClearOldErrors 1000 [''timeout_TIME_001'', ''network_NET_001''] 100
            (GetErrorAnalyzer\<lparr>summaries := twoSummaries\<rparr>, GetDatabaseLogger) =
          Some (1, GetErrorAnalyzer\<lparr>summaries := purged 1000 100 twoSummaries\<rparr>, dl')) \<and>
   purged 1000 100 twoSummaries ''network_NET_001'' = None \<and>
   purged 1000 100 twoSummaries ''timeout_TIME_001'' =
     Some (summarySeenAt ErrorTypeTimeout ''TIME_001'' 950)"
proof -
  have h1: "distinct [''timeout_TIME_001'', ''network_NET_001'']" by simp
  have h2: "set [''timeout_TIME_001'', ''network_NET_001''] =
            dom (summaries (GetErrorAnalyzer\<lparr>summaries := twoSummaries\<rparr>))"
    by (auto simp: twoSummaries_dom)
  have h3: "(100 :: duration) \<noteq> minDuration" by (simp add: minDuration_def)
  have h4: "0 < maxEntries GetDatabaseLogger" by (simp add: GetDatabaseLogger_def)
  have p: "purged 1000 100 twoSummaries ''network_NET_001'' = None"
    "purged 1000 100 twoSummaries ''timeout_TIME_001'' =
       Some (summarySeenAt ErrorTypeTimeout ''TIME_001'' 950)"
    by (simp_all add: purged_def twoSummaries_def isOld_def summarySeenAt_def)
  show ?thesis
    using C7_purge_removes_exactly_the_old [OF h1 h2 h3 h4, of 1000] h1 h2 h3 h4 p
    by (simp add: twoSummaries_oldKeys)
qed

text \<open>
  The claim as stated covers every duration. For the least duration the negation
  \<^verbatim>\<open>-olderThan\<close> wraps around to the least duration again, the cutoff lies 292 years in the
  past instead of the future, and a summary the claim has removed is kept. (The handler
  \<^verbatim>\<open>ClearOldErrorsHandler\<close> produces this duration for \<^verbatim>\<open>hours = 2^50\<close>.)
\<close>

theorem C7_least_duration_counterexample:
  "isOld 1000 minDuration (summarySeenAt ErrorTypeNetwork ''NET_001'' 900) \<and>
   ClearOldErrors 1000 [''network_NET_001''] minDuration
     (GetErrorAnalyzer
        \<lparr>summaries := [''network_NET_001'' \<mapsto> summarySeenAt ErrorTypeNetwork ''NET_001'' 900]\<rparr>,
      GetDatabaseLogger) =
   Some (0,
     GetErrorAnalyzer
        \<lparr>summaries := [''network_NET_001'' \<mapsto> summarySeenAt ErrorTypeNetwork ''NET_001'' 900]\<rparr>,
     GetDatabaseLogger)"
  by (simp add: isOld_def minDuration_def summarySeenAt_def ClearOldErrors_def Add_def
        Before_def Let_def)

text \<open>The duration the handler computes for \<^verbatim>\<open>hours = 2^50\<close>: \<^verbatim>\<open>time.Duration(hours) * time.Hour\<close>.\<close>

lemma handler_hours_overflow:
  "(1125899906842624 :: duration) * (3600 * Second) = minDuration"
  by (simp add: Second_def minDuration_def)

end
